theory Spec2Isabelle
  imports Main "HOL-Library.Char_ord" "HOL-Library.List_Lexorder"
begin

section \<open>Data model\<close>

text \<open>
  Instants (JavaScript \<open>Date\<close>, MySQL \<open>timestamp\<close>) are milliseconds since the epoch.
  A nullable column or an optional field is an \<open>option\<close>; \<open>None\<close> stands for both
  \<open>null\<close> and \<open>undefined\<close>, which the operators \<open>??\<close> and \<open>?.\<close> do not tell apart.
  Numbers are integers: ids, counts and byte sizes are, and the cpu percentage, a float
  in the source, is only copied from a snapshot to a metric row.
\<close>

type_synonym timestamp = int

text \<open>A thrown JavaScript value: an \<open>Error\<close> with its message, or anything else.\<close>

datatype thrown = Error string | NonError

type_synonym 'a result = "thrown + 'a"

subsection \<open>pm2Service.ts: \<open>PM2ProcessInfo\<close>\<close>

record PM2ProcessInfo =
  pm_id :: int
  p_name :: string
  pid :: int
  status :: string
  cpu :: int
  memory :: int
  uptime :: int
  restarts :: int
  script :: string
  cwd :: string
  args :: "string list"
  env :: "(string \<times> string) list"
  exec_mode :: string
  instances :: int
  pm_uptime :: int
  created_at :: int
  unstable_restarts :: int
  pm_err_log_path :: "string option"
  pm_out_log_path :: "string option"

subsection \<open>drizzle/schema.ts: the rows of the durable store\<close>

record TaskGroup =
  tg_id :: int
  tg_name :: string
  tg_description :: "string option"
  tg_color :: "string option"
  tg_createdAt :: timestamp
  tg_updatedAt :: timestamp

text \<open>
  Of \<open>task_configs\<close> the columns read or written by the functions below; the other
  columns (script, cwd, args, env, instances, execMode, autorestart, maxRestarts,
  minUptime, maxMemoryRestart, createdAt, updatedAt) are carried by no function here.
\<close>

record TaskConfig =
  tc_id :: int
  tc_pm2Id :: int
  tc_name :: string
  tc_groupId :: "int option"

record PerformanceMetric =
  pmt_id :: int
  pmt_pm2Id :: int
  pmt_cpu :: int
  pmt_memory :: int
  pmt_timestamp :: timestamp

record InsertPerformanceMetric =
  ipm_pm2Id :: int
  ipm_cpu :: int
  ipm_memory :: int

datatype log_type = Stdout | Stderr

record LogEntry =
  le_id :: int
  le_pm2Id :: int
  le_type :: log_type
  le_content :: string
  le_timestamp :: timestamp

record InsertLogEntry =
  ile_pm2Id :: int
  ile_type :: log_type
  ile_content :: string

subsection \<open>localStorage.ts: the JSON document of the fallback store\<close>

record LocalTaskConfig =
  lc_pm2Id :: int
  lc_groupId :: "int option"

record LocalStorage =
  groups :: "TaskGroup list"
  configs :: "LocalTaskConfig list"
  nextGroupId :: int

section \<open>Snapshot merge\<close>

text \<open>\<open>a ?? b\<close>: the left operand unless it is \<open>null\<close> or \<open>undefined\<close>.\<close>

definition nullish :: "'a option \<Rightarrow> 'a option \<Rightarrow> 'a option" where
  "nullish a b = (case a of Some v \<Rightarrow> Some v | None \<Rightarrow> b)"

text \<open>\<open>s || d\<close> on an optional string: \<open>d\<close> when \<open>s\<close> is missing or empty.\<close>

definition or_else :: "string option \<Rightarrow> 'a \<Rightarrow> (string \<Rightarrow> 'a) \<Rightarrow> 'a" where
  "or_else s d f = (case s of None \<Rightarrow> d | Some v \<Rightarrow> if v = [] then d else f v)"

text \<open>
  \<open>localConfig?.groupId ?? dbConfig?.groupId ?? null\<close>, where \<open>localConfig\<close> and
  \<open>dbConfig\<close> are the first entries of the two lists with the process's id
  (\<open>Array.prototype.find\<close>).
\<close>

definition merged_groupId :: "LocalTaskConfig list \<Rightarrow> TaskConfig list \<Rightarrow> int \<Rightarrow> int option" where
  "merged_groupId localConfigs dbConfigs i =
     (let localConfig = find (\<lambda>c. lc_pm2Id c = i) localConfigs;
          dbConfig = find (\<lambda>c. tc_pm2Id c = i) dbConfigs
      in nullish (nullish (Option.bind localConfig lc_groupId) (Option.bind dbConfig tc_groupId))
           None)"

text \<open>The entry of \<open>processes:update\<close> (socketServer.ts): \<open>{...proc, groupId}\<close>.\<close>

record ProcessWithGroup =
  pwg_proc :: PM2ProcessInfo
  pwg_groupId :: "int option"

definition processesWithGroups ::
  "PM2ProcessInfo list \<Rightarrow> TaskConfig list \<Rightarrow> LocalTaskConfig list \<Rightarrow> ProcessWithGroup list" where
  "processesWithGroups processes dbConfigs localConfigs =
     map (\<lambda>proc. \<lparr>pwg_proc = proc,
                   pwg_groupId = merged_groupId localConfigs dbConfigs (pm_id proc)\<rparr>) processes"

text \<open>The entry of \<open>processes.list\<close> (routers.ts): \<open>{...proc, groupId, config: dbConfig || null}\<close>.\<close>

record ProcessListEntry =
  ple_proc :: PM2ProcessInfo
  ple_groupId :: "int option"
  ple_config :: "TaskConfig option"

definition processes_list ::
  "PM2ProcessInfo list \<Rightarrow> TaskConfig list \<Rightarrow> LocalTaskConfig list \<Rightarrow> ProcessListEntry list" where
  "processes_list processes dbConfigs localConfigs =
     map (\<lambda>proc. \<lparr>ple_proc = proc,
                   ple_groupId = merged_groupId localConfigs dbConfigs (pm_id proc),
                   ple_config = find (\<lambda>c. tc_pm2Id c = pm_id proc) dbConfigs\<rparr>) processes"

text \<open>A process as \<open>listProcesses\<close> reports one that has only an id and a name.\<close>

definition bare_process :: "int \<Rightarrow> string \<Rightarrow> PM2ProcessInfo" where
  "bare_process i n =
     \<lparr>pm_id = i, p_name = n, pid = 0, status = ''unknown'', cpu = 0, memory = 0, uptime = 0,
      restarts = 0, script = '''', cwd = '''', args = [], env = [], exec_mode = ''fork'',
      instances = 1, pm_uptime = 0, created_at = 0, unstable_restarts = 0,
      pm_err_log_path = None, pm_out_log_path = None\<rparr>"

section \<open>Socket sessions (socketServer.ts)\<close>

subsection \<open>What a handler does to the outside\<close>

record LogData =
  ld_pm2Id :: int
  ld_type :: log_type
  ld_content :: string
  ld_timestamp :: timestamp

text \<open>
  The calls a handler makes on behalf of its socket, in the order it makes them:
  \<open>socket.emit\<close> of the three message kinds, and the two inserts of db.ts. Each call
  is taken to return, as the two inserts below do whether or not the backend is reachable.
\<close>

datatype effect =
    Emit_processes_update "ProcessWithGroup list"
  | Emit_logs_data LogData
  | Emit_error string
  | Call_insertPerformanceMetric InsertPerformanceMetric
  | Call_insertLogEntry InsertLogEntry

subsection \<open>\<open>fetchAndSendProcesses\<close>\<close>

text \<open>
  What the three reads of one cycle return: \<open>pm2Service.listProcesses()\<close> (which may
  throw), \<open>db.getAllTaskConfigs()\<close> and \<open>localStorage.getAllTaskConfigsLocal()\<close>.
\<close>

record poll =
  poll_processes :: "PM2ProcessInfo list result"
  poll_dbConfigs :: "TaskConfig list"
  poll_localConfigs :: "LocalTaskConfig list"

definition fetchAndSendProcesses :: "poll \<Rightarrow> effect list" where
  "fetchAndSendProcesses p =
     (case poll_processes p of
        Inl e \<Rightarrow> [Emit_error ''Failed to fetch process data'']
      | Inr processes \<Rightarrow>
          Emit_processes_update
            (processesWithGroups processes (poll_dbConfigs p) (poll_localConfigs p))
          # map (\<lambda>proc. Call_insertPerformanceMetric
                   \<lparr>ipm_pm2Id = pm_id proc, ipm_cpu = cpu proc, ipm_memory = memory proc\<rparr>)
              (filter (\<lambda>proc. status proc = ''online'') processes))"

subsection \<open>Historical replay of a log file\<close>

definition maxLines :: nat where
  "maxLines = 100"

text \<open>One turn of the reading loop: \<open>lines.push(line); if (lines.length > maxLines) lines.shift()\<close>.\<close>

definition push_line :: "string list \<Rightarrow> string \<Rightarrow> string list" where
  "push_line lines line =
     (let lines' = lines @ [line] in if length lines' > maxLines then tl lines' else lines')"

text \<open>The window after the loop \<open>for await (const line of rl)\<close> over the lines of a file.\<close>

definition read_window :: "string list \<Rightarrow> string list" where
  "read_window file_lines = foldl push_line [] file_lines"

text \<open>\<open>String.prototype.includes\<close>: the second string occurs in the first, contiguously.\<close>

fun str_includes :: "string \<Rightarrow> string \<Rightarrow> bool" where
  "str_includes [] sub = (sub = [])"
| "str_includes (c # cs) sub = (take (length sub) (c # cs) = sub \<or> str_includes cs sub)"

definition type_of_logPath :: "string \<Rightarrow> log_type" where
  "type_of_logPath logPath = (if str_includes logPath ''out'' then Stdout else Stderr)"

text \<open>The loop \<open>for (const line of lines)\<close>: one emission and one insert per line.\<close>

definition send_initial_lines :: "int \<Rightarrow> timestamp \<Rightarrow> string \<Rightarrow> string list \<Rightarrow> effect list" where
  "send_initial_lines pm2Id now logPath lines =
     concat (map (\<lambda>line.
        [Emit_logs_data \<lparr>ld_pm2Id = pm2Id, ld_type = type_of_logPath logPath,
                         ld_content = line, ld_timestamp = now\<rparr>,
         Call_insertLogEntry \<lparr>ile_pm2Id = pm2Id, ile_type = type_of_logPath logPath,
                              ile_content = line\<rparr>]) lines)"

text \<open>
  The body of \<open>for (const logPath of logPaths)\<close>. The file system maps a path to the
  lines \<open>readline\<close> yields, or to \<open>None\<close> when the stream fails; the failure is caught
  and logged, and nothing of that file is sent.
\<close>

definition stream_log_file ::
  "(string \<Rightarrow> string list option) \<Rightarrow> int \<Rightarrow> timestamp \<Rightarrow> string \<Rightarrow> effect list" where
  "stream_log_file fs pm2Id now logPath =
     (case fs logPath of
        None \<Rightarrow> []
      | Some file_lines \<Rightarrow> send_initial_lines pm2Id now logPath (read_window file_lines))"

datatype stream_kind = OnlyStdout | OnlyStderr | Both

text \<open>\<open>if (process.pm_out_log_path) logPaths.push(...)\<close>: a path that is set and not empty.\<close>

definition truthy_path :: "string option \<Rightarrow> string list" where
  "truthy_path p = (case p of None \<Rightarrow> [] | Some s \<Rightarrow> if s = [] then [] else [s])"

definition logPaths_of :: "stream_kind \<Rightarrow> PM2ProcessInfo \<Rightarrow> string list" where
  "logPaths_of kind process =
     (if kind = OnlyStdout \<or> kind = Both then truthy_path (pm_out_log_path process) else [])
     @ (if kind = OnlyStderr \<or> kind = Both then truthy_path (pm_err_log_path process) else [])"

definition replay :: "(string \<Rightarrow> string list option) \<Rightarrow> int \<Rightarrow> timestamp \<Rightarrow> string list \<Rightarrow> effect list" where
  "replay fs pm2Id now logPaths = concat (map (stream_log_file fs pm2Id now) logPaths)"

subsection \<open>The session and its handlers\<close>

text \<open>
  \<open>monitorInterval\<close> and \<open>pm2Bus\<close> are the two slots of \<open>socket.data\<close>. \<open>intervals\<close>
  are the timers \<open>setInterval\<close> created for this socket that no \<open>clearInterval\<close> has
  cancelled; \<open>buses\<close> are the buses \<open>launchBus\<close> opened for this socket that are not
  closed, each with the process id its \<open>logHandler\<close> filters on. Handles are numbered
  in the order of their creation. \<open>trace\<close> collects the effects.
\<close>

record session =
  monitorInterval :: "nat option"
  pm2Bus :: "nat option"
  intervals :: "nat list"
  buses :: "(nat \<times> int) list"
  next_handle :: nat
  trace :: "effect list"

definition connection :: session where
  "connection = \<lparr>monitorInterval = None, pm2Bus = None, intervals = [], buses = [],
                 next_handle = 0, trace = []\<rparr>"

definition monitor_start :: "poll \<Rightarrow> session \<Rightarrow> session" where
  "monitor_start p s =
     s\<lparr>trace := trace s @ fetchAndSendProcesses p,
       intervals := intervals s @ [next_handle s],
       monitorInterval := Some (next_handle s),
       next_handle := Suc (next_handle s)\<rparr>"

definition monitor_stop :: "session \<Rightarrow> session" where
  "monitor_stop s =
     (case monitorInterval s of
        Some h \<Rightarrow> s\<lparr>intervals := removeAll h (intervals s), monitorInterval := None\<rparr>
      | None \<Rightarrow> s)"

text \<open>A tick of the timer \<open>h\<close>: it runs \<open>fetchAndSendProcesses\<close> if it was not cancelled.\<close>

definition timer_fires :: "nat \<Rightarrow> poll \<Rightarrow> session \<Rightarrow> session" where
  "timer_fires h p s =
     (if h \<in> set (intervals s) then s\<lparr>trace := trace s @ fetchAndSendProcesses p\<rparr> else s)"

text \<open>
  The request \<open>logs:stream\<close> with what its calls return: \<open>describeProcess\<close> (a
  process, \<open>null\<close>, or a throw), the file system, the clock (one reading of
  \<open>new Date()\<close> for the whole replay), and whether \<open>launchBus\<close> hands over a bus.
\<close>

record stream_request =
  sr_pm2Id :: int
  sr_type :: stream_kind
  sr_describe :: "PM2ProcessInfo option result"
  sr_fs :: "string \<Rightarrow> string list option"
  sr_now :: timestamp
  sr_bus_launched :: bool

definition logs_stream :: "stream_request \<Rightarrow> session \<Rightarrow> session" where
  "logs_stream r s =
     (case sr_describe r of
        Inl e \<Rightarrow> s\<lparr>trace := trace s @ [Emit_error ''Failed to stream logs'']\<rparr>
      | Inr None \<Rightarrow> s\<lparr>trace := trace s @ [Emit_error ''Process not found'']\<rparr>
      | Inr (Some process) \<Rightarrow>
          (let s' = s\<lparr>trace := trace s @
                        replay (sr_fs r) (sr_pm2Id r) (sr_now r) (logPaths_of (sr_type r) process)\<rparr>
           in if sr_bus_launched r
              then s'\<lparr>buses := buses s' @ [(next_handle s', sr_pm2Id r)],
                      pm2Bus := Some (next_handle s'),
                      next_handle := Suc (next_handle s')\<rparr>
              else s'))"

definition logs_stop :: "session \<Rightarrow> session" where
  "logs_stop s =
     (case pm2Bus s of
        Some b \<Rightarrow> s\<lparr>buses := filter (\<lambda>x. fst x \<noteq> b) (buses s), pm2Bus := None\<rparr>
      | None \<Rightarrow> s)"

text \<open>A packet of the bus: \<open>packet.process.pm_id\<close>, \<open>packet.data\<close>, \<open>packet.error\<close>, \<open>packet.at\<close>.\<close>

record packet =
  pk_pm_id :: int
  pk_data :: "string option"
  pk_error :: "string option"
  pk_at :: timestamp

definition truthy :: "string option \<Rightarrow> bool" where
  "truthy v = (case v of None \<Rightarrow> False | Some s \<Rightarrow> s \<noteq> [])"

text \<open>\<open>packet.data || packet.error || ''\<close>.\<close>

definition packet_content :: "packet \<Rightarrow> string" where
  "packet_content k = or_else (pk_data k) (or_else (pk_error k) [] (\<lambda>e. e)) (\<lambda>d. d)"

definition logHandler :: "int \<Rightarrow> packet \<Rightarrow> effect list" where
  "logHandler pm2Id k =
     (if pk_pm_id k = pm2Id
      then (let logType = (if truthy (pk_data k) then Stdout else Stderr)
            in [Emit_logs_data \<lparr>ld_pm2Id = pm2Id, ld_type = logType,
                                 ld_content = packet_content k, ld_timestamp = pk_at k\<rparr>,
                Call_insertLogEntry \<lparr>ile_pm2Id = pm2Id, ile_type = logType,
                                      ile_content = packet_content k\<rparr>])
      else [])"

text \<open>The bus \<open>b\<close> delivers a packet: the handlers attached to it run if it is still open.\<close>

definition bus_delivers :: "nat \<Rightarrow> packet \<Rightarrow> session \<Rightarrow> session" where
  "bus_delivers b k s =
     s\<lparr>trace := trace s @
          concat (map (\<lambda>x. logHandler (snd x) k) (filter (\<lambda>x. fst x = b) (buses s)))\<rparr>"

definition disconnect :: "session \<Rightarrow> session" where
  "disconnect s =
     (let s1 = (case monitorInterval s of
                  Some h \<Rightarrow> s\<lparr>intervals := removeAll h (intervals s)\<rparr>
                | None \<Rightarrow> s)
      in case pm2Bus s1 of
           Some b \<Rightarrow> s1\<lparr>buses := filter (\<lambda>x. fst x \<noteq> b) (buses s1)\<rparr>
         | None \<Rightarrow> s1)"

text \<open>Every active timer and every open bus of the session is the one in its slot.\<close>

definition tracked :: "session \<Rightarrow> bool" where
  "tracked s =
     (set (intervals s) \<subseteq> set_option (monitorInterval s)
      \<and> fst ` set (buses s) \<subseteq> set_option (pm2Bus s))"

datatype event =
    Monitor_start poll
  | Monitor_stop
  | Logs_stream stream_request
  | Logs_stop
  | Disconnect
  | Timer_fires nat poll
  | Bus_delivers nat packet

fun handle :: "session \<Rightarrow> event \<Rightarrow> session" where
  "handle s (Monitor_start p) = monitor_start p s"
| "handle s Monitor_stop = monitor_stop s"
| "handle s (Logs_stream r) = logs_stream r s"
| "handle s Logs_stop = logs_stop s"
| "handle s Disconnect = disconnect s"
| "handle s (Timer_fires h p) = timer_fires h p s"
| "handle s (Bus_delivers b k) = bus_delivers b k s"

definition run :: "event list \<Rightarrow> session \<Rightarrow> session" where
  "run es s = foldl handle s es"

text \<open>A cycle's reads when the supervisor reports one online process and no store has a config.\<close>

definition one_online :: poll where
  "one_online =
     \<lparr>poll_processes = Inr [(bare_process 1 ''api'')\<lparr>status := ''online''\<rparr>],
      poll_dbConfigs = [], poll_localConfigs = []\<rparr>"

text \<open>The \<open>logs:data\<close> messages and the \<open>insertLogEntry\<close> calls of a trace, in order.\<close>

fun emitted_log :: "effect \<Rightarrow> LogData list" where
  "emitted_log (Emit_logs_data d) = [d]"
| "emitted_log _ = []"

definition emitted_logs :: "effect list \<Rightarrow> LogData list" where
  "emitted_logs es = concat (map emitted_log es)"

fun inserted_log :: "effect \<Rightarrow> InsertLogEntry list" where
  "inserted_log (Call_insertLogEntry e) = [e]"
| "inserted_log _ = []"

definition inserted_logs :: "effect list \<Rightarrow> InsertLogEntry list" where
  "inserted_logs es = concat (map inserted_log es)"

section \<open>Config store (db.ts)\<close>

text \<open>
  The tables are lists of rows in insertion order, each with the next value of its
  \<open>AUTO_INCREMENT\<close> column. The handle \<open>getDb()\<close> returns is a \<open>database option\<close>:
  \<open>None\<close> is \<open>null\<close>, the durable backend being unreachable. Every function returns
  the handle's new state beside its result.
\<close>

record database =
  taskGroups :: "TaskGroup list"
  taskConfigs :: "TaskConfig list"
  performanceMetrics :: "PerformanceMetric list"
  logEntries :: "LogEntry list"
  next_taskGroup_id :: int
  next_performanceMetric_id :: int
  next_logEntry_id :: int

text \<open>
  \<open>ORDER BY name\<close>: a stable sort on the collation's sort key of the name. The
  collation belongs to the database server and is a parameter.
\<close>

definition orderBy_name :: "(string \<Rightarrow> string) \<Rightarrow> ('a \<Rightarrow> string) \<Rightarrow> 'a list \<Rightarrow> 'a list" where
  "orderBy_name coll col rows = sort_key (\<lambda>r. coll (col r)) rows"

definition getAllTaskGroups :: "(string \<Rightarrow> string) \<Rightarrow> database option \<Rightarrow> TaskGroup list" where
  "getAllTaskGroups coll db =
     (case db of None \<Rightarrow> [] | Some d \<Rightarrow> orderBy_name coll tg_name (taskGroups d))"

definition getTaskGroupById :: "database option \<Rightarrow> int \<Rightarrow> TaskGroup option" where
  "getTaskGroupById db i =
     (case db of None \<Rightarrow> None | Some d \<Rightarrow> find (\<lambda>g. tg_id g = i) (taskGroups d))"



text \<open>
  \<open>Partial<InsertTaskGroup>\<close>: \<open>None\<close> is a key that is not set. (With no key set
  at all the query builder refuses the update; that call is not modelled.)
\<close>

record UpdateTaskGroup =
  utg_name :: "string option"
  utg_description :: "string option"
  utg_color :: "string option"

definition set_group :: "UpdateTaskGroup \<Rightarrow> TaskGroup \<Rightarrow> TaskGroup" where
  "set_group u g =
     g\<lparr>tg_name := (case utg_name u of None \<Rightarrow> tg_name g | Some n \<Rightarrow> n),
       tg_description := nullish (utg_description u) (tg_description g),
       tg_color := nullish (utg_color u) (tg_color g)\<rparr>"

text \<open>\<open>onUpdateNow()\<close>: the column takes the current instant when the update changes the row.\<close>

definition on_update_now :: "timestamp \<Rightarrow> TaskGroup \<Rightarrow> TaskGroup \<Rightarrow> TaskGroup" where
  "on_update_now now old new = (if new = old then old else new\<lparr>tg_updatedAt := now\<rparr>)"

definition updateTaskGroup ::
  "timestamp \<Rightarrow> database option \<Rightarrow> int \<Rightarrow> UpdateTaskGroup \<Rightarrow> TaskGroup option result \<times> database option" where
  "updateTaskGroup now db i data =
     (case db of
        None \<Rightarrow> (Inr None, None)
      | Some d \<Rightarrow>
          (let d' = d\<lparr>taskGroups :=
                       map (\<lambda>g. if tg_id g = i then on_update_now now g (set_group data g) else g)
                         (taskGroups d)\<rparr>
           in (Inr (getTaskGroupById (Some d') i), Some d')))"

definition deleteTaskGroup :: "database option \<Rightarrow> int \<Rightarrow> unit result \<times> database option" where
  "deleteTaskGroup db i =
     (case db of
        None \<Rightarrow> (Inr (), None)
      | Some d \<Rightarrow>
          (Inr (),
           Some (d\<lparr>taskConfigs :=
                     map (\<lambda>c. if tc_groupId c = Some i then c\<lparr>tc_groupId := None\<rparr> else c)
                       (taskConfigs d),
                   taskGroups := filter (\<lambda>g. tg_id g \<noteq> i) (taskGroups d)\<rparr>)))"




definition updateTaskConfigGroup ::
  "database option \<Rightarrow> int \<Rightarrow> int option \<Rightarrow> unit result \<times> database option" where
  "updateTaskConfigGroup db pm2Id groupId =
     (case db of
        None \<Rightarrow> (Inr (), None)
      | Some d \<Rightarrow>
          (Inr (),
           Some (d\<lparr>taskConfigs :=
                     map (\<lambda>c. if tc_pm2Id c = pm2Id then c\<lparr>tc_groupId := groupId\<rparr> else c)
                       (taskConfigs d)\<rparr>)))"










section \<open>Fallback store (localStorage.ts)\<close>

text \<open>
  The data file: its parsed content (\<open>None\<close> when the file is missing or cannot be
  read or parsed) and whether \<open>writeFileSync\<close> succeeds. \<open>saveData\<close> catches a failed
  write and leaves the file as it was.
\<close>

record data_file =
  content :: "LocalStorage option"
  writable :: bool

definition loadData :: "data_file \<Rightarrow> LocalStorage" where
  "loadData f =
     (case content f of
        Some d \<Rightarrow> d
      | None \<Rightarrow> \<lparr>groups = [], configs = [], nextGroupId = 1\<rparr>)"

definition saveData :: "LocalStorage \<Rightarrow> data_file \<Rightarrow> data_file" where
  "saveData d f = (if writable f then f\<lparr>content := Some d\<rparr> else f)"

text \<open>\<open>sort((a, b) => a.name.localeCompare(b.name))\<close>: stable, on the locale's sort key.\<close>

definition getAllTaskGroupsLocal :: "(string \<Rightarrow> string) \<Rightarrow> data_file \<Rightarrow> TaskGroup list" where
  "getAllTaskGroupsLocal locale f = sort_key (\<lambda>g. locale (tg_name g)) (groups (loadData f))"

definition getTaskGroupByIdLocal :: "data_file \<Rightarrow> int \<Rightarrow> TaskGroup option" where
  "getTaskGroupByIdLocal f i = find (\<lambda>g. tg_id g = i) (groups (loadData f))"


text \<open>\<open>findIndex\<close>, then the entry at that index is replaced.\<close>

fun update_first :: "('a \<Rightarrow> bool) \<Rightarrow> ('a \<Rightarrow> 'a) \<Rightarrow> 'a list \<Rightarrow> 'a list" where
  "update_first P u [] = []"
| "update_first P u (x # xs) = (if P x then u x # xs else x # update_first P u xs)"

definition updateTaskGroupLocal ::
  "timestamp \<Rightarrow> int \<Rightarrow> UpdateTaskGroup \<Rightarrow> data_file \<Rightarrow> TaskGroup option \<times> data_file" where
  "updateTaskGroupLocal now i updates f =
     (let d = loadData f
      in case find (\<lambda>g. tg_id g = i) (groups d) of
           None \<Rightarrow> (None, f)
         | Some g \<Rightarrow>
             (let g' = (set_group updates g)\<lparr>tg_updatedAt := now\<rparr>;
                  d' = d\<lparr>groups := update_first (\<lambda>g. tg_id g = i) (\<lambda>g. g') (groups d)\<rparr>
              in (Some g', saveData d' f)))"

definition deleteTaskGroupLocal :: "int \<Rightarrow> data_file \<Rightarrow> data_file" where
  "deleteTaskGroupLocal i f =
     (let d = loadData f;
          d1 = d\<lparr>configs := map (\<lambda>c. if lc_groupId c = Some i then c\<lparr>lc_groupId := None\<rparr> else c)
                              (configs d)\<rparr>;
          d2 = d1\<lparr>groups := filter (\<lambda>g. tg_id g \<noteq> i) (groups d1)\<rparr>
      in saveData d2 f)"


definition getTaskConfigByPm2IdLocal :: "data_file \<Rightarrow> int \<Rightarrow> LocalTaskConfig option" where
  "getTaskConfigByPm2IdLocal f pm2Id = find (\<lambda>c. lc_pm2Id c = pm2Id) (configs (loadData f))"

definition updateTaskConfigGroupLocal :: "int \<Rightarrow> int option \<Rightarrow> data_file \<Rightarrow> data_file" where
  "updateTaskConfigGroupLocal pm2Id groupId f =
     (let d = loadData f;
          d' = (case find (\<lambda>c. lc_pm2Id c = pm2Id) (configs d) of
                  None \<Rightarrow> d\<lparr>configs := configs d @ [\<lparr>lc_pm2Id = pm2Id, lc_groupId = groupId\<rparr>]\<rparr>
                | Some c \<Rightarrow> d\<lparr>configs := update_first (\<lambda>c. lc_pm2Id c = pm2Id)
                                           (\<lambda>c. c\<lparr>lc_groupId := groupId\<rparr>) (configs d)\<rparr>)
      in saveData d' f)"

section \<open>Routing layer (routers.ts)\<close>

text \<open>The two stores a procedure works on.\<close>

record stores =
  db :: "database option"
  local :: data_file

definition groups_list :: "(string \<Rightarrow> string) \<Rightarrow> (string \<Rightarrow> string) \<Rightarrow> stores \<Rightarrow> TaskGroup list" where
  "groups_list coll locale w =
     (let dbGroups = getAllTaskGroups coll (db w)
      in if length dbGroups > 0 then dbGroups else getAllTaskGroupsLocal locale (local w))"

text \<open>
  The input schema of \<open>groups.create\<close>: a name of at least one character, and a color
  \<open>/^#[0-9A-Fa-f]{6}$/\<close> if one is given.
\<close>

definition hex_digit :: "char \<Rightarrow> bool" where
  "hex_digit c = (c \<in> set ''0123456789ABCDEFabcdef'')"

definition color_ok :: "string \<Rightarrow> bool" where
  "color_ok c = (case c of [] \<Rightarrow> False | h # ds \<Rightarrow> h = CHR ''#'' \<and> length ds = 6 \<and> list_all hex_digit ds)"



text \<open>
  \<open>groups.update\<close>: the durable store's row if it returns one, else the fallback
  store's. The input schema wants a name, if given, of at least one character and a
  color, if given, of the same form as above.
\<close>

definition update_input_ok :: "UpdateTaskGroup \<Rightarrow> bool" where
  "update_input_ok u =
     ((case utg_name u of None \<Rightarrow> True | Some n \<Rightarrow> length n \<ge> 1)
      \<and> (case utg_color u of None \<Rightarrow> True | Some c \<Rightarrow> color_ok c))"

definition groups_update ::
  "timestamp \<Rightarrow> int \<Rightarrow> UpdateTaskGroup \<Rightarrow> stores \<Rightarrow> TaskGroup option result \<times> stores" where
  "groups_update now i data w =
     (if \<not> update_input_ok data then (Inl (Error ''Input validation failed''), w)
      else (case updateTaskGroup now (db w) i data of
              (Inl e, db') \<Rightarrow> (Inl e, w\<lparr>db := db'\<rparr>)
            | (Inr (Some g), db') \<Rightarrow> (Inr (Some g), w\<lparr>db := db'\<rparr>)
            | (Inr None, db') \<Rightarrow>
                (let (r, f') = updateTaskGroupLocal now i data (local w)
                 in (Inr r, w\<lparr>db := db', local := f'\<rparr>))))"

definition groups_delete :: "int \<Rightarrow> stores \<Rightarrow> unit result \<times> stores" where
  "groups_delete i w =
     (case deleteTaskGroup (db w) i of
        (Inl e, db') \<Rightarrow> (Inl e, w\<lparr>db := db'\<rparr>)
      | (Inr u, db') \<Rightarrow> (Inr (), w\<lparr>db := db', local := deleteTaskGroupLocal i (local w)\<rparr>))"

text \<open>
  \<open>processes.updateGroup\<close>: the fallback store first, then the durable store, whose
  throw is caught.
\<close>

definition processes_updateGroup :: "int \<Rightarrow> int option \<Rightarrow> stores \<Rightarrow> stores" where
  "processes_updateGroup pm2Id groupId w =
     (let f' = updateTaskConfigGroupLocal pm2Id groupId (local w);
          (r, db') = updateTaskConfigGroup (db w) pm2Id groupId
      in w\<lparr>db := db', local := f'\<rparr>)"


section \<open>Batch operations (pm2Service.ts)\<close>

text \<open>A process id is a number (an integer, as PM2 numbers its processes) or a name.\<close>

datatype proc_id = Num int | Str string

datatype operation = Start | Stop | Restart | Delete

text \<open>
  The PM2 client library, over the supervisor's state \<open>'d\<close>: each call returns what it
  threw (\<open>None\<close> when it resolved) and the supervisor's new state.
\<close>

record 'd pm2_client =
  pm2Connect :: "'d \<Rightarrow> thrown option \<times> 'd"
  pm2Stop :: "proc_id \<Rightarrow> 'd \<Rightarrow> thrown option \<times> 'd"
  pm2Restart :: "proc_id \<Rightarrow> 'd \<Rightarrow> thrown option \<times> 'd"
  pm2Delete :: "proc_id \<Rightarrow> 'd \<Rightarrow> thrown option \<times> 'd"

record 'd service =
  isConnected :: bool
  daemon :: 'd

definition ensureConnection :: "'d pm2_client \<Rightarrow> 'd service \<Rightarrow> thrown option \<times> 'd service" where
  "ensureConnection pm2 s =
     (if \<not> isConnected s
      then (case pm2Connect pm2 (daemon s) of
              (None, d') \<Rightarrow> (None, s\<lparr>isConnected := True, daemon := d'\<rparr>)
            | (Some e, d') \<Rightarrow> (Some e, s\<lparr>daemon := d'\<rparr>))
      else (None, s))"

definition connected_call ::
  "'d pm2_client \<Rightarrow> ('d \<Rightarrow> thrown option \<times> 'd) \<Rightarrow> 'd service \<Rightarrow> thrown option \<times> 'd service" where
  "connected_call pm2 call s =
     (case ensureConnection pm2 s of
        (Some e, s') \<Rightarrow> (Some e, s')
      | (None, s') \<Rightarrow> (case call (daemon s') of (r, d') \<Rightarrow> (r, s'\<lparr>daemon := d'\<rparr>)))"

definition stopProcess :: "'d pm2_client \<Rightarrow> proc_id \<Rightarrow> 'd service \<Rightarrow> thrown option \<times> 'd service" where
  "stopProcess pm2 processId s = connected_call pm2 (pm2Stop pm2 processId) s"

definition restartProcess :: "'d pm2_client \<Rightarrow> proc_id \<Rightarrow> 'd service \<Rightarrow> thrown option \<times> 'd service" where
  "restartProcess pm2 processId s = connected_call pm2 (pm2Restart pm2 processId) s"

definition deleteProcess :: "'d pm2_client \<Rightarrow> proc_id \<Rightarrow> 'd service \<Rightarrow> thrown option \<times> 'd service" where
  "deleteProcess pm2 processId s = connected_call pm2 (pm2Delete pm2 processId) s"

text \<open>Decimal rendering of a number in a template literal.\<close>

fun digits_of :: "nat \<Rightarrow> string" where
  "digits_of n =
     (if n < 10 then [''0123456789'' ! n]
      else digits_of (n div 10) @ [''0123456789'' ! (n mod 10)])"

definition string_of_int :: "int \<Rightarrow> string" where
  "string_of_int i = (if i < 0 then CHR ''-'' # digits_of (nat (- i)) else digits_of (nat i))"

fun string_of_id :: "proc_id \<Rightarrow> string" where
  "string_of_id (Num i) = string_of_int i"
| "string_of_id (Str s) = s"

record batch_result =
  success :: nat
  failed :: nat
  errors :: "string list"

text \<open>The body of the \<open>try\<close>: the \<open>switch\<close> on the operation.\<close>

fun attempt :: "'d pm2_client \<Rightarrow> operation \<Rightarrow> proc_id \<Rightarrow> 'd service \<Rightarrow> thrown option \<times> 'd service" where
  "attempt pm2 Stop i s = stopProcess pm2 i s"
| "attempt pm2 Restart i s = restartProcess pm2 i s"
| "attempt pm2 Delete i s = deleteProcess pm2 i s"
| "attempt pm2 Start i s = (Some (Error ''Unsupported operation: start''), s)"

fun batch_loop ::
  "'d pm2_client \<Rightarrow> operation \<Rightarrow> proc_id list \<Rightarrow> batch_result \<Rightarrow> 'd service \<Rightarrow> batch_result \<times> 'd service" where
  "batch_loop pm2 operation [] results s = (results, s)"
| "batch_loop pm2 operation (i # ids) results s =
     (case attempt pm2 operation i s of
        (None, s') \<Rightarrow> batch_loop pm2 operation ids (results\<lparr>success := success results + 1\<rparr>) s'
      | (Some e, s') \<Rightarrow>
          batch_loop pm2 operation ids
            (results\<lparr>failed := failed results + 1,
                     errors := errors results @
                       [''Process '' @ string_of_id i @ '': '' @
                        (case e of Error m \<Rightarrow> m | NonError \<Rightarrow> ''Unknown error'')]\<rparr>) s')"

definition batchOperation ::
  "'d pm2_client \<Rightarrow> proc_id list \<Rightarrow> operation \<Rightarrow> 'd service \<Rightarrow> batch_result \<times> 'd service" where
  "batchOperation pm2 processIds operation s =
     batch_loop pm2 operation processIds \<lparr>success = 0, failed = 0, errors = []\<rparr> s"

text \<open>
  What each attempt of a batch threw, in the order of the ids, and the report of the
  failures: for each attempt that threw, the line \<open>Process <id>: <reason>\<close>, the
  reason being the message of the \<open>Error\<close> thrown, or \<open>Unknown error\<close>.
\<close>

fun outcomes :: "'d pm2_client \<Rightarrow> operation \<Rightarrow> proc_id list \<Rightarrow> 'd service \<Rightarrow> thrown option list" where
  "outcomes pm2 operation [] s = []"
| "outcomes pm2 operation (i # ids) s =
     (case attempt pm2 operation i s of (r, s') \<Rightarrow> r # outcomes pm2 operation ids s')"

fun reason_of :: "thrown \<Rightarrow> string" where
  "reason_of (Error m) = m"
| "reason_of NonError = ''Unknown error''"

definition error_line :: "proc_id \<Rightarrow> thrown \<Rightarrow> string" where
  "error_line i e = ''Process '' @ string_of_id i @ '': '' @ reason_of e"

fun error_lines :: "proc_id list \<Rightarrow> thrown option list \<Rightarrow> string list" where
  "error_lines (i # ids) (Some e # rs) = error_line i e # error_lines ids rs"
| "error_lines (i # ids) (None # rs) = error_lines ids rs"
| "error_lines _ _ = []"

text \<open>
  A supervisor without state whose every call resolves, except on process 2, where it
  throws an \<open>Error\<close> with the given reason.
\<close>

definition fails_on_2 :: "string \<Rightarrow> unit pm2_client" where
  "fails_on_2 reason =
     (let call = (\<lambda>i d. (if i = Num 2 then Some (Error reason) else None, d))
      in \<lparr>pm2Connect = (\<lambda>d. (None, d)), pm2Stop = call, pm2Restart = call, pm2Delete = call\<rparr>)"

declare digits_of.simps [simp del]

section \<open>Observers and fixtures\<close>


definition durable_groups :: "stores \<Rightarrow> TaskGroup list" where
  "durable_groups w = (case db w of None \<Rightarrow> [] | Some d \<Rightarrow> taskGroups d)"





text \<open>
  A \<open>logs:stream\<close> request for process 1, which has no log file, and a packet of the
  bus for that process.
\<close>

definition tail_request :: stream_request where
  "tail_request =
     \<lparr>sr_pm2Id = 1, sr_type = Both, sr_describe = Inr (Some (bare_process 1 ''api'')),
      sr_fs = (\<lambda>p. None), sr_now = 0, sr_bus_launched = True\<rparr>"

definition out_packet :: packet where
  "out_packet = \<lparr>pk_pm_id = 1, pk_data = Some ''late line'', pk_error = None, pk_at = 5\<rparr>"

section \<open>Theorems\<close>

subsection \<open>Snapshot merge\<close>

lemma length_processes_list:
  "length (processes_list processes dbConfigs localConfigs) = length processes"
  by (simp add: processes_list_def)

lemma length_processesWithGroups:
  "length (processesWithGroups processes dbConfigs localConfigs) = length processes"
  by (simp add: processesWithGroups_def)

lemma merged_ids:
  "map (pm_id \<circ> ple_proc) (processes_list processes dbConfigs localConfigs) = map pm_id processes"
  by (simp add: processes_list_def comp_def)

text \<open>
  What the merge does: the first of the two group ids that is not \<open>null\<close>, the
  fallback store's first.
\<close>

lemma merged_groupId_precedence:
  "merged_groupId localConfigs dbConfigs i =
     (case Option.bind (find (\<lambda>c. lc_pm2Id c = i) localConfigs) lc_groupId of
        Some g \<Rightarrow> Some g
      | None \<Rightarrow> Option.bind (find (\<lambda>c. tc_pm2Id c = i) dbConfigs) tc_groupId)"
  by (simp add: merged_groupId_def nullish_def Let_def split: option.splits)

text \<open>
  Claim C1. The merged view has one entry per snapshot, and the group id of a process
  is the fallback store's value whenever the fallback store holds an assignment for it.
  At the input below the fallback store holds the assignment of process 1 to \<open>null\<close>
  and the durable store the assignment of process 1 to group 5: both merges answer 5,
  the durable store's value, because \<open>??\<close> passes over a \<open>null\<close> group id as it does
  over a missing entry.
\<close>

theorem C1_null_fallback_assignment_is_overridden:
  "map ple_groupId
     (processes_list [bare_process 1 ''api'']
        [\<lparr>tc_id = 1, tc_pm2Id = 1, tc_name = ''api'', tc_groupId = Some 5\<rparr>]
        [\<lparr>lc_pm2Id = 1, lc_groupId = None\<rparr>]) = [Some 5]
   \<and> map pwg_groupId
     (processesWithGroups [bare_process 1 ''api'']
        [\<lparr>tc_id = 1, tc_pm2Id = 1, tc_name = ''api'', tc_groupId = Some 5\<rparr>]
        [\<lparr>lc_pm2Id = 1, lc_groupId = None\<rparr>]) = [Some 5]"
  by (simp add: processes_list_def processesWithGroups_def merged_groupId_def nullish_def
      bare_process_def)

subsection \<open>Historical replay\<close>







lemma str_includes_iff: "str_includes s sub \<longleftrightarrow> (\<exists>pre suf. s = pre @ sub @ suf)"
proof (induction s)
  case Nil
  then show ?case by auto
next
  case (Cons c cs)
  have "(\<exists>pre suf. c # cs = pre @ sub @ suf) \<longleftrightarrow>
        (\<exists>suf. c # cs = sub @ suf) \<or> (\<exists>pre suf. cs = pre @ sub @ suf)"
  proof
    assume "\<exists>pre suf. c # cs = pre @ sub @ suf"
    then obtain pre suf where e: "c # cs = pre @ sub @ suf" by blast
    show "(\<exists>suf. c # cs = sub @ suf) \<or> (\<exists>pre suf. cs = pre @ sub @ suf)"
    proof (cases pre)
      case Nil
      with e show ?thesis by auto
    next
      case (Cons a pre')
      with e show ?thesis by auto
    qed
  next
    assume "(\<exists>suf. c # cs = sub @ suf) \<or> (\<exists>pre suf. cs = pre @ sub @ suf)"
    then show "\<exists>pre suf. c # cs = pre @ sub @ suf"
    proof
      assume "\<exists>suf. c # cs = sub @ suf"
      then obtain suf where "c # cs = [] @ sub @ suf" by auto
      then show ?thesis by blast
    next
      assume "\<exists>pre suf. cs = pre @ sub @ suf"
      then obtain pre suf where "c # cs = (c # pre) @ sub @ suf" by auto
      then show ?thesis by blast
    qed
  qed
  moreover have "take (length sub) (c # cs) = sub \<longleftrightarrow> (\<exists>suf. c # cs = sub @ suf)"
    by (metis append_eq_conv_conj)
  ultimately show ?case using Cons.IH by simp
qed

lemma type_of_logPath_iff:
  "type_of_logPath p = (if (\<exists>pre suf. p = pre @ ''out'' @ suf) then Stdout else Stderr)"
  by (simp only: type_of_logPath_def str_includes_iff)

lemma emitted_send_initial_lines_type:
  "d \<in> set (emitted_logs (send_initial_lines pm2Id now p ls)) \<Longrightarrow> ld_type d = type_of_logPath p"
  by (induction ls) (auto simp: send_initial_lines_def emitted_logs_def)

lemma inserted_send_initial_lines_type:
  "e \<in> set (inserted_logs (send_initial_lines pm2Id now p ls)) \<Longrightarrow> ile_type e = type_of_logPath p"
  by (induction ls) (auto simp: send_initial_lines_def inserted_logs_def)

lemma emitted_stream_log_file_type:
  "d \<in> set (emitted_logs (stream_log_file fs pm2Id now p)) \<Longrightarrow> ld_type d = type_of_logPath p"
proof (cases "fs p")
  case None
  assume "d \<in> set (emitted_logs (stream_log_file fs pm2Id now p))"
  with None show ?thesis by (simp add: stream_log_file_def emitted_logs_def)
next
  case (Some ls)
  assume "d \<in> set (emitted_logs (stream_log_file fs pm2Id now p))"
  with Some show ?thesis
    by (simp add: stream_log_file_def emitted_send_initial_lines_type)
qed

lemma inserted_stream_log_file_type:
  "e \<in> set (inserted_logs (stream_log_file fs pm2Id now p)) \<Longrightarrow> ile_type e = type_of_logPath p"
proof (cases "fs p")
  case None
  assume "e \<in> set (inserted_logs (stream_log_file fs pm2Id now p))"
  with None show ?thesis by (simp add: stream_log_file_def inserted_logs_def)
next
  case (Some ls)
  assume "e \<in> set (inserted_logs (stream_log_file fs pm2Id now p))"
  with Some show ?thesis
    by (simp add: stream_log_file_def inserted_send_initial_lines_type)
qed

text \<open>
  Claim C10. Every line the replay of a file emits or persists is tagged \<open>stdout\<close>
  exactly when the file's path contains \<open>out\<close>, and \<open>stderr\<close> otherwise, whichever
  of the two log files of the process it is; so the lines of a stderr file whose path
  contains \<open>out\<close> are tagged \<open>stdout\<close>.
\<close>

theorem C10_type_follows_the_path:
  "(\<forall>d \<in> set (emitted_logs (stream_log_file fs pm2Id now logPath)).
      ld_type d = (if (\<exists>pre suf. logPath = pre @ ''out'' @ suf) then Stdout else Stderr))
   \<and> (\<forall>e \<in> set (inserted_logs (stream_log_file fs pm2Id now logPath)).
      ile_type e = (if (\<exists>pre suf. logPath = pre @ ''out'' @ suf) then Stdout else Stderr))
   \<and> (pm_err_log_path process = Some logPath \<and> (\<exists>pre suf. logPath = pre @ ''out'' @ suf) \<longrightarrow>
        (\<forall>d \<in> set (emitted_logs (replay fs pm2Id now (logPaths_of OnlyStderr process))).
           ld_type d = Stdout)
        \<and> (\<forall>e \<in> set (inserted_logs (replay fs pm2Id now (logPaths_of OnlyStderr process))).
           ile_type e = Stdout))"
proof (intro conjI ballI impI)
  fix d assume "d \<in> set (emitted_logs (stream_log_file fs pm2Id now logPath))"
  then show "ld_type d = (if (\<exists>pre suf. logPath = pre @ ''out'' @ suf) then Stdout else Stderr)"
    by (simp only: emitted_stream_log_file_type type_of_logPath_iff)
next
  fix e assume "e \<in> set (inserted_logs (stream_log_file fs pm2Id now logPath))"
  then show "ile_type e = (if (\<exists>pre suf. logPath = pre @ ''out'' @ suf) then Stdout else Stderr)"
    by (simp only: inserted_stream_log_file_type type_of_logPath_iff)
next
  fix d
  assume h: "pm_err_log_path process = Some logPath \<and> (\<exists>pre suf. logPath = pre @ ''out'' @ suf)"
    and d: "d \<in> set (emitted_logs (replay fs pm2Id now (logPaths_of OnlyStderr process)))"
  from h have ne: "logPath \<noteq> []" by auto
  from h ne have "replay fs pm2Id now (logPaths_of OnlyStderr process)
                    = stream_log_file fs pm2Id now logPath"
    by (simp add: replay_def logPaths_of_def truthy_path_def)
  with d have "ld_type d = type_of_logPath logPath"
    by (simp add: emitted_stream_log_file_type)
  with h show "ld_type d = Stdout" by (simp only: type_of_logPath_iff if_True)
next
  fix e
  assume h: "pm_err_log_path process = Some logPath \<and> (\<exists>pre suf. logPath = pre @ ''out'' @ suf)"
    and e: "e \<in> set (inserted_logs (replay fs pm2Id now (logPaths_of OnlyStderr process)))"
  from h have ne: "logPath \<noteq> []" by auto
  from h ne have "replay fs pm2Id now (logPaths_of OnlyStderr process)
                    = stream_log_file fs pm2Id now logPath"
    by (simp add: replay_def logPaths_of_def truthy_path_def)
  with e have "ile_type e = type_of_logPath logPath"
    by (simp add: inserted_stream_log_file_type)
  with h show "ile_type e = Stdout" by (simp only: type_of_logPath_iff if_True)
qed

lemma scout_contains_out:
  "\<exists>pre suf. ''/home/scout/.pm2/logs/api-error.log'' = pre @ ''out'' @ suf"
proof -
  have "''/home/scout/.pm2/logs/api-error.log''
          = ''/home/sc'' @ ''out'' @ ''/.pm2/logs/api-error.log''"
    by simp
  then show ?thesis by blast
qed

text \<open>
  The stderr file of a process of the user \<open>scout\<close>, requested as \<open>stderr\<close>: its line
  is tagged \<open>stdout\<close>. A stderr file under \<open>/var/log\<close>: its line is tagged \<open>stderr\<close>.
\<close>

theorem C10_scout_stderr_witness:
  "map ld_type (emitted_logs (replay (\<lambda>p. Some [''boom'']) 7 0
      (logPaths_of OnlyStderr
         ((bare_process 7 ''api'')
            \<lparr>pm_err_log_path := Some ''/home/scout/.pm2/logs/api-error.log'',
             pm_out_log_path := Some ''/home/scout/.pm2/logs/api-access.log''\<rparr>))))
     = [Stdout]
   \<and> map ile_type
       (inserted_logs (stream_log_file (\<lambda>p. Some [''boom'']) 7 0 ''/var/log/api-error.log''))
     = [Stderr]"
  using C10_type_follows_the_path
    [of "\<lambda>p. Some [''boom'']" 7 0 "''/home/scout/.pm2/logs/api-error.log''"
        "(bare_process 7 ''api'')
            \<lparr>pm_err_log_path := Some ''/home/scout/.pm2/logs/api-error.log'',
             pm_out_log_path := Some ''/home/scout/.pm2/logs/api-access.log''\<rparr>"]
    scout_contains_out
  by (simp add: replay_def logPaths_of_def truthy_path_def stream_log_file_def read_window_def
      push_line_def maxLines_def send_initial_lines_def emitted_logs_def inserted_logs_def
      type_of_logPath_def bare_process_def)

subsection \<open>Sessions\<close>

lemmas session_defs = run_def connection_def monitor_start_def monitor_stop_def timer_fires_def
  disconnect_def logs_stream_def logs_stop_def bus_delivers_def

text \<open>What \<open>monitor:stop\<close> does by itself, in every state of a session.\<close>

lemma monitor_stop_idem: "monitor_stop (monitor_stop s) = monitor_stop s"
  by (simp add: monitor_stop_def split: option.splits)

lemma monitor_stop_clears_slot: "monitorInterval (monitor_stop s) = None"
  by (simp add: monitor_stop_def split: option.splits)

lemma monitor_stop_never_started: "monitor_stop connection = connection"
  by (simp add: monitor_stop_def connection_def)

lemma monitor_stop_tracked:
  "set (intervals s) \<subseteq> set_option (monitorInterval s) \<Longrightarrow> intervals (monitor_stop s) = []"
  by (cases "monitorInterval s")
     (auto simp: monitor_stop_def filter_empty_conv removeAll_filter_not_eq)

lemma logs_stop_idem: "logs_stop (logs_stop s) = logs_stop s"
  by (simp add: logs_stop_def split: option.splits)

text \<open>
  From a state where every handle is in its slot, \<open>disconnect\<close> leaves no timer and
  no bus, and a late tick or packet changes nothing; a start on an empty slot keeps
  every handle in its slot.
\<close>

lemma disconnect_tracked:
  assumes "tracked s"
  shows "intervals (disconnect s) = [] \<and> buses (disconnect s) = []"
proof -
  from assms have i: "\<forall>h \<in> set (intervals s). monitorInterval s = Some h"
    and b: "\<forall>x \<in> set (buses s). pm2Bus s = Some (fst x)"
    by (auto simp: tracked_def)
  from i have "intervals (case monitorInterval s of
                  Some h \<Rightarrow> s\<lparr>intervals := removeAll h (intervals s)\<rparr> | None \<Rightarrow> s) = []"
    by (cases "monitorInterval s") (auto simp: removeAll_filter_not_eq filter_empty_conv)
  moreover have "buses (case pm2Bus s of
                  Some c \<Rightarrow> s\<lparr>buses := filter (\<lambda>x. fst x \<noteq> c) (buses s)\<rparr> | None \<Rightarrow> s) = []"
  proof (cases "pm2Bus s")
    case None
    with b have "buses s = []" by (cases "buses s") auto
    with None show ?thesis by simp
  next
    case (Some c)
    with b show ?thesis by (simp add: filter_empty_conv)
  qed
  ultimately show ?thesis
    by (cases "monitorInterval s"; cases "pm2Bus s") (simp_all add: disconnect_def)
qed

lemma quiet_after_tracked_disconnect:
  assumes "tracked s"
  shows "timer_fires h p (disconnect s) = disconnect s
       \<and> bus_delivers b k (disconnect s) = disconnect s"
  using disconnect_tracked [OF assms] by (simp add: timer_fires_def bus_delivers_def)

lemma monitor_start_tracked:
  "tracked s \<Longrightarrow> monitorInterval s = None \<Longrightarrow> tracked (monitor_start p s)"
  by (auto simp: tracked_def monitor_start_def)

lemma monitor_stop_keeps_tracked: "tracked s \<Longrightarrow> tracked (monitor_stop s)"
  by (cases "monitorInterval s") (auto simp: tracked_def monitor_stop_def)

text \<open>
  Claim C2. A \<open>monitor:start\<close> on a session that already holds a polling handle
  cancels the old timer before it installs the new one, so that a session never has
  two active timers. After two \<open>monitor:start\<close> in a row the timers 0 and 1 are both
  active: the handler overwrites the slot and calls no \<open>clearInterval\<close>.
\<close>

theorem C2_second_start_keeps_first_timer:
  "intervals (run [Monitor_start one_online, Monitor_start one_online] connection) = [0, 1]
   \<and> monitorInterval (run [Monitor_start one_online, Monitor_start one_online] connection)
       = Some 1"
  by (simp add: session_defs)

text \<open>
  Claim C6. Two \<open>monitor:stop\<close> in a row leave the session with no active polling
  timer. After two \<open>monitor:start\<close> and two \<open>monitor:stop\<close> the timer 0 is still
  active, and its next tick runs a full cycle: the second start left it in no slot,
  so no stop can cancel it.
\<close>

theorem C6_timer_left_after_two_stops:
  "intervals (run [Monitor_start one_online, Monitor_start one_online, Monitor_stop, Monitor_stop]
                connection) = [0]
   \<and> trace (run [Monitor_start one_online, Monitor_start one_online, Monitor_stop, Monitor_stop,
                  Timer_fires 0 one_online] connection)
     = trace (run [Monitor_start one_online, Monitor_start one_online, Monitor_stop, Monitor_stop]
                connection) @ fetchAndSendProcesses one_online"
  by (simp add: session_defs)

text \<open>
  Claim C4. After \<open>disconnect\<close> nothing more is emitted or persisted for the session.
  After two \<open>monitor:start\<close> and a \<open>disconnect\<close>, a tick of the timer 0 emits
  \<open>processes:update\<close> and inserts a metric; after two \<open>logs:stream\<close> and a
  \<open>disconnect\<close>, a packet on the bus 0 emits \<open>logs:data\<close> and inserts a log entry.
  \<open>disconnect\<close> releases only the handles in the two slots.
\<close>

theorem C4_work_after_disconnect:
  "trace (run [Monitor_start one_online, Monitor_start one_online, Disconnect,
               Timer_fires 0 one_online] connection)
     = trace (run [Monitor_start one_online, Monitor_start one_online, Disconnect] connection)
       @ [Emit_processes_update
            [\<lparr>pwg_proc = (bare_process 1 ''api'')\<lparr>status := ''online''\<rparr>, pwg_groupId = None\<rparr>],
          Call_insertPerformanceMetric \<lparr>ipm_pm2Id = 1, ipm_cpu = 0, ipm_memory = 0\<rparr>]
   \<and> trace (run [Logs_stream tail_request, Logs_stream tail_request, Disconnect,
                 Bus_delivers 0 out_packet] connection)
     = [Emit_logs_data
          \<lparr>ld_pm2Id = 1, ld_type = Stdout, ld_content = ''late line'', ld_timestamp = 5\<rparr>,
        Call_insertLogEntry \<lparr>ile_pm2Id = 1, ile_type = Stdout, ile_content = ''late line''\<rparr>]"
  by (simp add: session_defs one_online_def fetchAndSendProcesses_def processesWithGroups_def
      merged_groupId_def nullish_def bare_process_def tail_request_def out_packet_def
      replay_def logPaths_of_def truthy_path_def logHandler_def truthy_def packet_content_def
      or_else_def)

subsection \<open>Config store with the backend unreachable\<close>



text \<open>
  With the backend unreachable the routing layer applies the fallback store without
  any error from the three: on the \<open>undefined\<close> result of the update, and after
  the deletion and beside the assignment update in every case.
\<close>

lemma router_applies_fallback:
  assumes "db w = None"
  shows "snd (groups_delete i w) = w\<lparr>local := deleteTaskGroupLocal i (local w)\<rparr>"
    and "processes_updateGroup pm2Id groupId w
           = w\<lparr>local := updateTaskConfigGroupLocal pm2Id groupId (local w)\<rparr>"
    and "update_input_ok data \<Longrightarrow>
         groups_update now i data w
           = (Inr (fst (updateTaskGroupLocal now i data (local w))),
              w\<lparr>local := snd (updateTaskGroupLocal now i data (local w))\<rparr>)"
  using assms
  by (simp_all add: groups_delete_def deleteTaskGroup_def processes_updateGroup_def
      updateTaskConfigGroup_def groups_update_def updateTaskGroup_def split_beta)

subsection \<open>Retention purge\<close>




subsection \<open>Group round trip\<close>








lemma groups_list_single:
  "(case db w of Some d \<Rightarrow> durable_groups w = [g] \<and> groups (loadData (local w)) = []
               | None \<Rightarrow> groups (loadData (local w)) = [g]) \<Longrightarrow> groups_list coll locale w = [g]"
  by (cases "db w")
     (simp_all add: groups_list_def getAllTaskGroups_def getAllTaskGroupsLocal_def orderBy_name_def
        durable_groups_def Let_def)






subsection \<open>Batch operations\<close>

lemma batch_loop_tally:
  "fst (batch_loop pm2 operation ids res s)
     = res\<lparr>success := success res + length (filter (\<lambda>r. r = None) (outcomes pm2 operation ids s)),
           failed := failed res + length (filter (\<lambda>r. r \<noteq> None) (outcomes pm2 operation ids s)),
           errors := errors res @ error_lines ids (outcomes pm2 operation ids s)\<rparr>"
proof (induction ids arbitrary: res s)
  case Nil
  then show ?case by simp
next
  case (Cons i ids)
  obtain r s' where a: "attempt pm2 operation i s = (r, s')" by (cases "attempt pm2 operation i s")
  show ?case
  proof (cases r)
    case None
    with a Cons.IH show ?thesis by simp
  next
    case (Some e)
    with a Cons.IH show ?thesis by (cases e) (simp_all add: error_line_def)
  qed
qed

lemma length_outcomes: "length (outcomes pm2 operation ids s) = length ids"
proof (induction ids arbitrary: s)
  case Nil
  then show ?case by simp
next
  case (Cons i ids)
  then show ?case by (cases "attempt pm2 operation i s") simp
qed

lemma attempt_fails_on_2:
  "operation \<noteq> Start \<Longrightarrow>
   attempt (fails_on_2 reason) operation i s
     = (if i = Num 2 then Some (Error reason) else None, s\<lparr>isConnected := True\<rparr>)"
  by (cases operation)
     (simp_all add: fails_on_2_def stopProcess_def restartProcess_def deleteProcess_def
        connected_call_def ensureConnection_def Let_def)

lemma outcomes_fails_on_2:
  "operation \<noteq> Start \<Longrightarrow>
   outcomes (fails_on_2 reason) operation ids s
     = map (\<lambda>i. if i = Num 2 then Some (Error reason) else None) ids"
  by (induction ids arbitrary: s) (simp_all add: attempt_fails_on_2)

lemma error_lines_map:
  "error_lines ids (map (\<lambda>i. if i = a then Some e else None) ids)
     = map (\<lambda>i. error_line i e) (filter (\<lambda>i. i = a) ids)"
  by (induction ids) simp_all

lemma filter_eq_distinct: "distinct xs \<Longrightarrow> a \<in> set xs \<Longrightarrow> filter (\<lambda>x. x = a) xs = [a]"
proof (induction xs)
  case Nil
  then show ?case by simp
next
  case (Cons x xs)
  show ?case
  proof (cases "x = a")
    case True
    with Cons.prems have "filter (\<lambda>x. x = a) xs = []" by (auto simp: filter_empty_conv)
    with True show ?thesis by simp
  next
    case False
    with Cons show ?thesis by simp
  qed
qed

lemma string_of_2: "string_of_int 2 = ''2''"
  by (simp add: string_of_int_def digits_of.simps)

text \<open>
  Claim C7. A batch attempts every id, whatever the earlier attempts threw: \<open>success\<close>
  counts the attempts that resolved, \<open>failed\<close> those that threw, and \<open>errors\<close>
  holds, in the order of the ids, one line \<open>Process <id>: <reason>\<close> per attempt that
  threw. Over the ids 1, 2, 3 in any order, when only the calls on 2 throw, the result
  is 2 successes, 1 failure and the one line \<open>Process 2: <reason>\<close>.
\<close>

theorem C7_batch_tally:
  "length (outcomes pm2 operation ids s) = length ids
   \<and> success (fst (batchOperation pm2 ids operation s))
       = length (filter (\<lambda>r. r = None) (outcomes pm2 operation ids s))
   \<and> failed (fst (batchOperation pm2 ids operation s))
       = length (filter (\<lambda>r. r \<noteq> None) (outcomes pm2 operation ids s))
   \<and> errors (fst (batchOperation pm2 ids operation s))
       = error_lines ids (outcomes pm2 operation ids s)
   \<and> success (fst (batchOperation pm2 ids operation s))
       + failed (fst (batchOperation pm2 ids operation s)) = length ids
   \<and> (distinct order \<and> set order = {Num 1, Num 2, Num 3} \<and> operation \<noteq> Start \<longrightarrow>
        fst (batchOperation (fails_on_2 reason) order operation c)
          = \<lparr>success = 2, failed = 1, errors = [''Process 2: '' @ reason]\<rparr>)"
proof (intro conjI impI)
  show "length (outcomes pm2 operation ids s) = length ids" by (rule length_outcomes)
  show "success (fst (batchOperation pm2 ids operation s))
       = length (filter (\<lambda>r. r = None) (outcomes pm2 operation ids s))"
    by (simp add: batchOperation_def batch_loop_tally)
  show "failed (fst (batchOperation pm2 ids operation s))
       = length (filter (\<lambda>r. r \<noteq> None) (outcomes pm2 operation ids s))"
    by (simp add: batchOperation_def batch_loop_tally)
  show "errors (fst (batchOperation pm2 ids operation s))
       = error_lines ids (outcomes pm2 operation ids s)"
    by (simp add: batchOperation_def batch_loop_tally)
  have "length (filter (\<lambda>r. r = None) (outcomes pm2 operation ids s))
          + length (filter (\<lambda>r. r \<noteq> None) (outcomes pm2 operation ids s))
        = length (outcomes pm2 operation ids s)"
    by (rule sum_length_filter_compl)
  then show "success (fst (batchOperation pm2 ids operation s))
       + failed (fst (batchOperation pm2 ids operation s)) = length ids"
    by (simp add: batchOperation_def batch_loop_tally length_outcomes)
next
  assume h: "distinct order \<and> set order = {Num 1, Num 2, Num 3} \<and> operation \<noteq> Start"
  let ?f = "\<lambda>i. if i = Num 2 then Some (Error reason) else None"
  from h have len: "length order = 3"
    using distinct_card [of order] by simp
  from h have two: "filter (\<lambda>i. i = Num 2) order = [Num 2]"
    by (simp add: filter_eq_distinct)
  have bad: "filter (\<lambda>r. r \<noteq> None) (map ?f order) = map ?f (filter (\<lambda>i. i = Num 2) order)"
    by (induction order) simp_all
  have nbad: "length (filter (\<lambda>r. r \<noteq> None) (map ?f order)) = 1"
    unfolding bad two by simp
  have "length (filter (\<lambda>r. r = None) (map ?f order))
          + length (filter (\<lambda>r. r \<noteq> None) (map ?f order)) = length (map ?f order)"
    by (rule sum_length_filter_compl)
  with nbad len have ngood: "length (filter (\<lambda>r. r = None) (map ?f order)) = 2" by simp
  have lines: "error_lines order (map ?f order) = [''Process 2: '' @ reason]"
    unfolding error_lines_map two by (simp add: error_line_def string_of_2)
  from h have "fst (batchOperation (fails_on_2 reason) order operation c)
          = \<lparr>success = length (filter (\<lambda>r. r = None) (map ?f order)),
             failed = length (filter (\<lambda>r. r \<noteq> None) (map ?f order)),
             errors = error_lines order (map ?f order)\<rparr>"
    by (simp add: batchOperation_def batch_loop_tally outcomes_fails_on_2)
  then show "fst (batchOperation (fails_on_2 reason) order operation c)
          = \<lparr>success = 2, failed = 1, errors = [''Process 2: '' @ reason]\<rparr>"
    unfolding ngood nbad lines .
qed

text \<open>The ids in the order 3, 2, 1, restarted.\<close>

theorem C7_reversed_order_witness:
  "fst (batchOperation (fails_on_2 ''process not found'') [Num 3, Num 2, Num 1] Restart
         \<lparr>isConnected = False, daemon = ()\<rparr>)
     = \<lparr>success = 2, failed = 1, errors = [''Process 2: process not found'']\<rparr>"
  using C7_batch_tally [where order = "[Num 3, Num 2, Num 1]" and operation = Restart
      and reason = "''process not found''" and c = "\<lparr>isConnected = False, daemon = ()\<rparr>"]
  by auto


end
